theory Spec2Isabelle
  imports Complex_Main
begin

section \<open>JavaScript values used by the components\<close>

text \<open>
  A JavaScript \<open>number\<close>: a finite value (doubles are rationals; \<open>Num 0\<close> stands for both
  zeros), \<open>NaN\<close>, or one of the two infinities.
\<close>

datatype number = Num rat | NaN | Infinity | NegInfinity

section \<open>FeaturedSection\<close>

text \<open>The interface \<open>FeaturedAgent\<close>, field by field.\<close>

record FeaturedAgent =
  slug :: string
  agent_name :: string
  agent_image :: string
  creator :: string
  creator_avatar :: string
  sub_heading :: string
  description :: string
  runs :: number
  rating :: number

text \<open>
  What the component reads and writes: its own \<open>useState\<close> cell \<open>currentSlide\<close>, the
  paths handed to \<open>router.push\<close> (oldest first) and the lines written by \<open>console.log\<close>.
  The slide index only ever holds \<open>0\<close>, \<open>length - 1\<close> or a neighbour of an earlier value,
  so it is an integer; array lengths are below \<open>2 ^ 32\<close>, where doubles add exactly.
\<close>

record world =
  currentSlide :: int
  router :: "string list"
  console :: "string list"

text \<open>\<open>useState(0)\<close> at mount; the router and the console are the surrounding page's.\<close>

definition mount :: "string list \<Rightarrow> string list \<Rightarrow> world" where
  "mount pushed logged = \<lparr>currentSlide = 0, router = pushed, console = logged\<rparr>"

text \<open>\<open>router.push(`/store/agent/${creator}/${slug}`)\<close>\<close>

definition handleCardClick :: "string \<Rightarrow> string \<Rightarrow> world \<Rightarrow> world" where
  "handleCardClick c s w = w\<lparr>router := router w @ [''/store/agent/'' @ c @ ''/'' @ s]\<rparr>"

text \<open>\<open>setCurrentSlide((prev) => prev === 0 ? featuredAgents.length - 1 : prev - 1)\<close>\<close>

definition handlePrevSlide :: "FeaturedAgent list \<Rightarrow> world \<Rightarrow> world" where
  "handlePrevSlide featuredAgents w =
     w\<lparr>currentSlide :=
         (let prev = currentSlide w
          in if prev = 0 then int (length featuredAgents) - 1 else prev - 1)\<rparr>"

text \<open>\<open>setCurrentSlide((prev) => prev === featuredAgents.length - 1 ? 0 : prev + 1)\<close>\<close>

definition handleNextSlide :: "FeaturedAgent list \<Rightarrow> world \<Rightarrow> world" where
  "handleNextSlide featuredAgents w =
     w\<lparr>currentSlide :=
         (let prev = currentSlide w
          in if prev = int (length featuredAgents) - 1 then 0 else prev + 1)\<rparr>"

text \<open>
  The position indicator strip: \<open>featuredAgents.map((_, index) => <div className=... />)\<close>,
  one \<open>div\<close> per element, given by its class name.
\<close>

definition active_mark :: string where
  "active_mark = ''h-3 w-[52px] rounded-[39px] bg-neutral-800 transition-all duration-500''"

definition inactive_mark :: string where
  "inactive_mark = ''h-3 w-3 rounded-full bg-neutral-300 transition-all duration-500''"

definition indicator_strip :: "FeaturedAgent list \<Rightarrow> world \<Rightarrow> string list" where
  "indicator_strip featuredAgents w =
     map (\<lambda>(index, _). if currentSlide w = int index then active_mark else inactive_mark)
         (enumerate 0 featuredAgents)"

text \<open>
  The carousel items: \<open>featuredAgents.map((agent, index) => ...)\<close>, one card per element,
  given by the card's \<open>onClick\<close>: \<open>() => handleCardClick(agent.creator, agent.slug)\<close>.
\<close>

definition card_onClick :: "FeaturedAgent list \<Rightarrow> (world \<Rightarrow> world) list" where
  "card_onClick featuredAgents =
     map (\<lambda>(index, agent). handleCardClick (creator agent) (slug agent))
         (enumerate 0 featuredAgents)"

text \<open>
  The clicks the rendered component can receive: the two arrow buttons and the cards. The
  indicator marks carry no handler. A click on a card that is not rendered cannot happen
  and changes nothing.
\<close>

datatype event = ClickPrev | ClickNext | ClickCard nat

fun dispatch :: "FeaturedAgent list \<Rightarrow> event \<Rightarrow> world \<Rightarrow> world" where
  "dispatch featuredAgents ClickPrev w = handlePrevSlide featuredAgents w"
| "dispatch featuredAgents ClickNext w = handleNextSlide featuredAgents w"
| "dispatch featuredAgents (ClickCard k) w =
     (if k < length featuredAgents then (card_onClick featuredAgents ! k) w else w)"

definition run :: "FeaturedAgent list \<Rightarrow> event list \<Rightarrow> world \<Rightarrow> world" where
  "run featuredAgents es w = fold (dispatch featuredAgents) es w"

text \<open>The invariant of the data model: the index points at an element.\<close>

definition index_in_range :: "FeaturedAgent list \<Rightarrow> world \<Rightarrow> bool" where
  "index_in_range featuredAgents w \<longleftrightarrow>
     0 \<le> currentSlide w \<and> currentSlide w < int (length featuredAgents)"

subsection \<open>The marketplace page's use of the component\<close>

text \<open>
  The object of props a caller hands to \<open>FeaturedSection\<close>. The interface
  \<open>FeaturedSectionProps\<close> has the single member \<open>featuredAgents\<close>; \<open>Page\<close> also passes
  \<open>onCardClick\<close>, so the object can carry one.
\<close>

record props_object =
  featuredAgents :: "FeaturedAgent list"
  onCardClick :: "(string \<Rightarrow> world \<Rightarrow> world) option"

text \<open>The component destructures \<open>{ featuredAgents }\<close> and nothing else.\<close>

definition FeaturedSection_cards :: "props_object \<Rightarrow> (world \<Rightarrow> world) list" where
  "FeaturedSection_cards props = card_onClick (featuredAgents props)"

text \<open>\<open>Page\<close>'s handler: \<open>console.log("Clicked on agent:", agentName)\<close>.\<close>

definition Page_handleCardClick :: "string \<Rightarrow> world \<Rightarrow> world" where
  "Page_handleCardClick agentName w =
     w\<lparr>console := console w @ [''Clicked on agent: '' @ agentName]\<rparr>"

text \<open>
  \<open><FeaturedSection featuredAgents={featuredAgents} onCardClick={handleCardClick} />\<close>
\<close>

definition Page_FeaturedSection :: "FeaturedAgent list \<Rightarrow> props_object" where
  "Page_FeaturedSection fa = \<lparr>featuredAgents = fa, onCardClick = Some Page_handleCardClick\<rparr>"

text \<open>
  Three featured agents for concrete runs: the names, creators, run counts and ratings of
  the story's mock data, with a slug each.
\<close>

definition seo_optimizer :: FeaturedAgent where
  "seo_optimizer =
     \<lparr>slug = ''seo-optimizer-pro'', agent_name = ''SEO Optimizer Pro'', agent_image = [],
      creator = ''AI Solutions Inc.'', creator_avatar = [], sub_heading = [],
      description = [], runs = Num 50000, rating = Num (47 / 10)\<rparr>"

definition content_writer :: FeaturedAgent where
  "content_writer =
     \<lparr>slug = ''content-writer-ai'', agent_name = ''Content Writer AI'', agent_image = [],
      creator = ''WordCraft AI'', creator_avatar = [], sub_heading = [],
      description = [], runs = Num 75000, rating = Num (45 / 10)\<rparr>"

definition data_analyzer :: FeaturedAgent where
  "data_analyzer =
     \<lparr>slug = ''data-analyzer-lite'', agent_name = ''Data Analyzer Lite'', agent_image = [],
      creator = ''DataTech'', creator_avatar = [], sub_heading = [],
      description = [], runs = Num 10000, rating = Num (38 / 10)\<rparr>"

definition mockFeaturedAgents :: "FeaturedAgent list" where
  "mockFeaturedAgents = [seo_optimizer, content_writer, data_analyzer]"

section \<open>AgentTableRow\<close>

text \<open>An optional prop as JavaScript sees it.\<close>

datatype 'a optional = Undefined | Null | Value 'a

text \<open>
  Text shown in a cell: a literal, or what the host returns from \<open>n.toLocaleString()\<close>
  (the runtime's default locale) or from \<open>n.toFixed(d)\<close>. Both host calls return a string.
\<close>

datatype rendered = Lit string | ToLocaleString number | ToFixed number nat

datatype jsx = Text rendered | Element string string "jsx list"

text \<open>The em-dash of the source, U+2014, in UTF-8.\<close>

definition em_dash :: string where
  "em_dash = [CHR 0xE2, CHR 0x80, CHR 0x94]"

text \<open>The condition of \<open>rating ? ... : ...\<close>: a number is falsy when it is zero or NaN.\<close>

fun truthy :: "number \<Rightarrow> bool" where
  "truthy (Num q) = (q \<noteq> 0)"
| "truthy NaN = False"
| "truthy Infinity = True"
| "truthy NegInfinity = True"

text \<open>\<open>runs?.toLocaleString()\<close>: undefined when \<open>runs\<close> is undefined or null.\<close>

fun optional_toLocaleString :: "number optional \<Rightarrow> rendered optional" where
  "optional_toLocaleString (Value n) = Value (ToLocaleString n)"
| "optional_toLocaleString Undefined = Undefined"
| "optional_toLocaleString Null = Undefined"

text \<open>\<open>a ?? b\<close>: \<open>b\<close> when \<open>a\<close> is undefined or null.\<close>

fun nullish_coalescing :: "'a optional \<Rightarrow> 'a \<Rightarrow> 'a" where
  "nullish_coalescing (Value a) b = a"
| "nullish_coalescing Undefined b = b"
| "nullish_coalescing Null b = b"

text \<open>The runs column: \<open>{runs?.toLocaleString() ?? em_dash}\<close>.\<close>

definition runs_text :: "number optional \<Rightarrow> rendered" where
  "runs_text runs' = nullish_coalescing (optional_toLocaleString runs') (Lit em_dash)"

definition runs_column :: "number optional \<Rightarrow> jsx" where
  "runs_column runs' = Element ''div'' ''text-sm text-neutral-600 text-right'' [Text (runs_text runs')]"

text \<open>The two branches of the reviews column.\<close>

definition rating_with_star :: "number \<Rightarrow> jsx" where
  "rating_with_star n =
     Element ''div'' ''flex items-center justify-end gap-1''
       [Element ''span'' ''text-sm font-medium text-neutral-800'' [Text (ToFixed n 1)],
        Element ''IconStarFilled'' ''h-4 w-4 text-neutral-800'' []]"

definition rating_dash :: jsx where
  "rating_dash = Element ''span'' ''text-sm text-neutral-600'' [Text (Lit em_dash)]"

text \<open>The reviews column: \<open>{rating ? (...rating.toFixed(1)... star) : (dash)}\<close>.\<close>

fun reviews_column :: "number optional \<Rightarrow> jsx" where
  "reviews_column (Value n) =
     Element ''div'' ''text-right'' [if truthy n then rating_with_star n else rating_dash]"
| "reviews_column Undefined = Element ''div'' ''text-right'' [rating_dash]"
| "reviews_column Null = Element ''div'' ''text-right'' [rating_dash]"

text \<open>
  The strings a host puts in place of the two calls; the rendered string of a text under
  a host.
\<close>

record host =
  toLocaleString :: "number \<Rightarrow> string"
  toFixed :: "number \<Rightarrow> nat \<Rightarrow> string"

fun text_string :: "host \<Rightarrow> rendered \<Rightarrow> string" where
  "text_string h (Lit s) = s"
| "text_string h (ToLocaleString n) = toLocaleString h n"
| "text_string h (ToFixed n d) = toFixed h n d"

section \<open>Wrap-around navigation\<close>

lemma next_in_range:
  assumes "0 \<le> currentSlide w" and "currentSlide w < int (length fa)"
  shows "currentSlide (handleNextSlide fa w) = (currentSlide w + 1) mod int (length fa)"
proof (cases "currentSlide w = int (length fa) - 1")
  case True
  then show ?thesis by (simp add: handleNextSlide_def)
next
  case False
  with assms have "currentSlide w + 1 < int (length fa)" by simp
  with assms False show ?thesis by (simp add: handleNextSlide_def)
qed

lemma prev_in_range:
  assumes "0 \<le> currentSlide w" and "currentSlide w < int (length fa)"
  shows "currentSlide (handlePrevSlide fa w)
         = (currentSlide w - 1 + int (length fa)) mod int (length fa)"
proof -
  define n where "n = int (length fa)"
  show ?thesis
  proof (cases "currentSlide w = 0")
    case True
    from assms True have "0 \<le> n - 1" "n - 1 < n" by (simp_all add: n_def)
    then have "(n - 1) mod n = n - 1" by (rule mod_pos_pos_trivial)
    then have "(0 - 1 + n) mod n = n - 1" by (simp add: algebra_simps)
    with True show ?thesis by (simp add: handlePrevSlide_def n_def)
  next
    case False
    with assms have "0 \<le> currentSlide w - 1" "currentSlide w - 1 < n" by (simp_all add: n_def)
    then have "(currentSlide w - 1) mod n = currentSlide w - 1" by (rule mod_pos_pos_trivial)
    then have "(currentSlide w - 1 + n) mod n = currentSlide w - 1" by simp
    with False show ?thesis by (simp add: handlePrevSlide_def n_def)
  qed
qed

lemma next_step:
  assumes "0 \<le> currentSlide w" and "currentSlide w < int (length fa)"
  shows "handleNextSlide fa w = w\<lparr>currentSlide := (currentSlide w + 1) mod int (length fa)\<rparr>"
proof -
  have "handleNextSlide fa w = w\<lparr>currentSlide := currentSlide (handleNextSlide fa w)\<rparr>"
    by (simp add: handleNextSlide_def)
  with next_in_range [OF assms] show ?thesis by simp
qed

lemma prev_step:
  assumes "0 \<le> currentSlide w" and "currentSlide w < int (length fa)"
  shows "handlePrevSlide fa w
         = w\<lparr>currentSlide := (currentSlide w - 1 + int (length fa)) mod int (length fa)\<rparr>"
proof -
  have "handlePrevSlide fa w = w\<lparr>currentSlide := currentSlide (handlePrevSlide fa w)\<rparr>"
    by (simp add: handlePrevSlide_def)
  with prev_in_range [OF assms] show ?thesis by simp
qed

text \<open>\<open>k\<close> presses of the right arrow move an index in range by \<open>k\<close>, modulo the length.\<close>

lemma next_iterated:
  assumes "0 \<le> currentSlide w" and "currentSlide w < int (length fa)"
  shows "(handleNextSlide fa ^^ k) w
         = w\<lparr>currentSlide := (currentSlide w + int k) mod int (length fa)\<rparr>"
proof (induction k)
  case 0
  from assms have "currentSlide w mod int (length fa) = currentSlide w" by simp
  then show ?case by simp
next
  case (Suc k)
  let ?n = "int (length fa)"
  let ?v = "w\<lparr>currentSlide := (currentSlide w + int k) mod ?n\<rparr>"
  from assms have n: "0 < ?n" by linarith
  have "0 \<le> currentSlide ?v" "currentSlide ?v < ?n"
    using pos_mod_sign [OF n] pos_mod_bound [OF n] by simp_all
  then have "handleNextSlide fa ?v = ?v\<lparr>currentSlide := (currentSlide ?v + 1) mod ?n\<rparr>"
    by (rule next_step)
  moreover have "((currentSlide w + int k) mod ?n + 1) mod ?n = (currentSlide w + int (Suc k)) mod ?n"
  proof -
    have "((currentSlide w + int k) mod ?n + 1) mod ?n = (currentSlide w + int k + 1) mod ?n"
      by (rule mod_add_left_eq)
    also have "currentSlide w + int k + 1 = currentSlide w + int (Suc k)" by simp
    finally show ?thesis .
  qed
  ultimately show ?case using Suc.IH by simp
qed

text \<open>
  Claim C1 (Advance). On a non-empty collection and an index in range the right arrow
  sets the index to \<open>(i + 1) mod N\<close> (\<open>next_in_range\<close> above), and it never fails. On the
  empty collection it is not a no-op: \<open>length - 1\<close> is \<open>-1\<close>, the index \<open>0\<close> of a freshly
  mounted component is not equal to it, and the index becomes \<open>1\<close>.
\<close>

theorem handleNextSlide_empty_collection:
  "currentSlide (handleNextSlide [] (mount [] [])) = 1
   \<and> handleNextSlide [] (mount [] []) \<noteq> mount [] []"
proof -
  have "currentSlide (handleNextSlide [] (mount [] [])) = 1"
    by (simp add: handleNextSlide_def mount_def)
  moreover have "currentSlide (mount [] []) = 0"
    by (simp add: mount_def)
  ultimately show ?thesis by auto
qed

text \<open>
  Claim C2 (Retreat). On a non-empty collection and an index in range the left arrow
  sets the index to \<open>(i - 1 + N) mod N\<close> (\<open>prev_in_range\<close> above). On the empty collection
  it is not a no-op: from the index \<open>0\<close> of a freshly mounted component it stores
  \<open>length - 1\<close>, which is \<open>-1\<close>.
\<close>

theorem handlePrevSlide_empty_collection:
  "currentSlide (handlePrevSlide [] (mount [] [])) = - 1
   \<and> handlePrevSlide [] (mount [] []) \<noteq> mount [] []"
proof -
  have "currentSlide (handlePrevSlide [] (mount [] [])) = - 1"
    by (simp add: handlePrevSlide_def mount_def)
  moreover have "currentSlide (mount [] []) = 0"
    by (simp add: mount_def)
  ultimately show ?thesis by auto
qed

text \<open>
  Claim C4 (inverse). For a collection of length at least one and an index in range,
  the right arrow followed by the left arrow gives back the state it started from.
\<close>

theorem advance_then_retreat:
  assumes "1 \<le> length fa" and "0 \<le> currentSlide w" and "currentSlide w < int (length fa)"
  shows "handlePrevSlide fa (handleNextSlide fa w) = w"
  using assms by (auto simp: handleNextSlide_def handlePrevSlide_def Let_def)

theorem advance_then_retreat_witness:
  "1 \<le> length mockFeaturedAgents \<and> 0 \<le> currentSlide (mount [] [])
   \<and> currentSlide (mount [] []) < int (length mockFeaturedAgents)
   \<and> handlePrevSlide mockFeaturedAgents (handleNextSlide mockFeaturedAgents (mount [] []))
       = mount [] []"
  using advance_then_retreat [of mockFeaturedAgents "mount [] []"]
  by (simp add: mockFeaturedAgents_def mount_def)

text \<open>
  Claim C5 (cyclic closure). For a collection of length \<open>N\<close>, at least one, and an index
  in range, \<open>N\<close> presses of the right arrow give back the state they started from.
\<close>

theorem advance_cycle:
  assumes "1 \<le> length fa" and "0 \<le> currentSlide w" and "currentSlide w < int (length fa)"
  shows "(handleNextSlide fa ^^ length fa) w = w"
proof -
  from assms have "(currentSlide w + int (length fa)) mod int (length fa) = currentSlide w"
    by simp
  with next_iterated [OF assms(2,3), of "length fa"] show ?thesis by simp
qed

theorem advance_cycle_witness:
  "1 \<le> length mockFeaturedAgents \<and> 0 \<le> currentSlide (mount [] [])
   \<and> currentSlide (mount [] []) < int (length mockFeaturedAgents)
   \<and> (handleNextSlide mockFeaturedAgents ^^ length mockFeaturedAgents) (mount [] [])
       = mount [] []"
  using advance_cycle [of mockFeaturedAgents "mount [] []"]
  by (simp add: mockFeaturedAgents_def mount_def)

section \<open>The index invariant\<close>

lemma next_keeps_range:
  assumes "index_in_range fa w"
  shows "index_in_range fa (handleNextSlide fa w)"
  using assms by (auto simp: index_in_range_def handleNextSlide_def Let_def)

lemma prev_keeps_range:
  assumes "index_in_range fa w"
  shows "index_in_range fa (handlePrevSlide fa w)"
  using assms by (auto simp: index_in_range_def handlePrevSlide_def Let_def)

lemma card_onClick_nth:
  assumes "k < length fa"
  shows "(card_onClick fa ! k) w
         = w\<lparr>router := router w @ [''/store/agent/'' @ creator (fa ! k) @ ''/'' @ slug (fa ! k)]\<rparr>"
  using assms by (simp add: card_onClick_def nth_enumerate_eq handleCardClick_def)

lemma dispatch_card_index:
  "currentSlide (dispatch fa (ClickCard k) w) = currentSlide w"
  by (simp add: card_onClick_nth)

lemma dispatch_keeps_range:
  assumes "index_in_range fa w"
  shows "index_in_range fa (dispatch fa e w)"
proof (cases e)
  case ClickPrev
  with prev_keeps_range [OF assms] show ?thesis by simp
next
  case ClickNext
  with next_keeps_range [OF assms] show ?thesis by simp
next
  case (ClickCard k)
  with assms dispatch_card_index [of fa k w] show ?thesis
    by (simp add: index_in_range_def)
qed

lemma run_keeps_range:
  assumes "index_in_range fa w"
  shows "index_in_range fa (run fa es w)"
  using assms
proof (induction es arbitrary: w)
  case Nil
  then show ?case by (simp add: run_def)
next
  case (Cons e es)
  from dispatch_keeps_range [OF Cons.prems, of e]
  have "index_in_range fa (run fa es (dispatch fa e w))"
    by (rule Cons.IH)
  then show ?case by (simp add: run_def)
qed

text \<open>
  Claim C3 (index invariant). For a collection of length \<open>N > 0\<close>: the index is \<open>0\<close> at
  mount, which is in \<open>[0, N)\<close>; the right and the left arrow keep an index in \<open>[0, N)\<close>
  there, and so does every sequence of clicks from mount; and a click that changes the
  index is a click on one of the two arrows.
\<close>

theorem index_invariant:
  assumes "0 < length fa"
  shows "currentSlide (mount pushed logged) = 0
       \<and> index_in_range fa (mount pushed logged)
       \<and> (index_in_range fa w \<longrightarrow>
            index_in_range fa (handleNextSlide fa w) \<and> index_in_range fa (handlePrevSlide fa w))
       \<and> index_in_range fa (run fa es (mount pushed logged))
       \<and> (currentSlide (dispatch fa e w) \<noteq> currentSlide w \<longrightarrow> e = ClickPrev \<or> e = ClickNext)"
proof -
  have m: "currentSlide (mount pushed logged) = 0"
    by (simp add: mount_def)
  with assms have r: "index_in_range fa (mount pushed logged)"
    by (simp add: index_in_range_def)
  have step: "index_in_range fa w \<longrightarrow>
            index_in_range fa (handleNextSlide fa w) \<and> index_in_range fa (handlePrevSlide fa w)"
    using next_keeps_range [of fa w] prev_keeps_range [of fa w] by blast
  have reach: "index_in_range fa (run fa es (mount pushed logged))"
    using r by (rule run_keeps_range)
  have frame: "currentSlide (dispatch fa e w) \<noteq> currentSlide w \<longrightarrow> e = ClickPrev \<or> e = ClickNext"
    using dispatch_card_index [of fa _ w] by (cases e) simp_all
  from m r step reach frame show ?thesis by blast
qed

theorem index_invariant_witness:
  "0 < length mockFeaturedAgents
   \<and> index_in_range mockFeaturedAgents (mount [] [])
   \<and> index_in_range mockFeaturedAgents (handleNextSlide mockFeaturedAgents (mount [] []))
   \<and> index_in_range mockFeaturedAgents (handlePrevSlide mockFeaturedAgents (mount [] []))
   \<and> index_in_range mockFeaturedAgents
        (run mockFeaturedAgents [ClickPrev, ClickCard 1, ClickNext, ClickNext] (mount [] []))
   \<and> currentSlide (dispatch mockFeaturedAgents ClickNext (mount [] []))
        \<noteq> currentSlide (mount [] [])"
proof -
  have len: "0 < length mockFeaturedAgents"
    by (simp add: mockFeaturedAgents_def)
  have moved: "currentSlide (dispatch mockFeaturedAgents ClickNext (mount [] []))
        \<noteq> currentSlide (mount [] [])"
    by (simp add: mockFeaturedAgents_def mount_def handleNextSlide_def)
  from len moved
    index_invariant [OF len, of "[]" "[]" "mount [] []"
      "[ClickPrev, ClickCard 1, ClickNext, ClickNext]" ClickNext]
  show ?thesis by blast
qed

section \<open>The position indicator strip\<close>

lemma marks_differ: "active_mark \<noteq> inactive_mark"
  by (simp add: active_mark_def inactive_mark_def)

text \<open>
  Claim C6 (indicator strip). The strip has exactly one mark per element of the
  collection, in order; the mark at position \<open>i\<close> is the elongated one (52px wide, the
  others 12px dots) if and only if \<open>i\<close> is the current index, and every other mark is a dot;
  the empty collection renders no mark.
\<close>

theorem indicator_strip_marks:
  "length (indicator_strip fa w) = length fa
   \<and> (\<forall>i < length fa.
         (indicator_strip fa w ! i = active_mark \<longleftrightarrow> currentSlide w = int i)
       \<and> (indicator_strip fa w ! i = inactive_mark \<longleftrightarrow> currentSlide w \<noteq> int i))
   \<and> active_mark \<noteq> inactive_mark
   \<and> indicator_strip [] w = []"
proof -
  have len: "length (indicator_strip fa w) = length fa"
    by (simp add: indicator_strip_def)
  have nth: "indicator_strip fa w ! i
             = (if currentSlide w = int i then active_mark else inactive_mark)"
    if "i < length fa" for i
    using that by (simp add: indicator_strip_def nth_enumerate_eq)
  have empty: "indicator_strip [] w = []"
    by (simp add: indicator_strip_def)
  from len nth empty marks_differ show ?thesis by auto
qed

theorem indicator_strip_marks_witness:
  "(1::nat) < length mockFeaturedAgents
   \<and> currentSlide (handleNextSlide mockFeaturedAgents (mount [] [])) = int 1
   \<and> indicator_strip mockFeaturedAgents (handleNextSlide mockFeaturedAgents (mount [] [])) ! 1
       = active_mark
   \<and> indicator_strip mockFeaturedAgents (handleNextSlide mockFeaturedAgents (mount [] [])) ! 0
       = inactive_mark
   \<and> length (indicator_strip mockFeaturedAgents (handleNextSlide mockFeaturedAgents (mount [] [])))
       = 3"
proof -
  let ?w = "handleNextSlide mockFeaturedAgents (mount [] [])"
  have len: "length mockFeaturedAgents = 3"
    by (simp add: mockFeaturedAgents_def)
  have cur: "currentSlide ?w = int 1"
    by (simp add: mockFeaturedAgents_def mount_def handleNextSlide_def)
  from indicator_strip_marks [of mockFeaturedAgents ?w] len cur
  show ?thesis by simp
qed

section \<open>Card selection\<close>

lemma length_card_onClick: "length (card_onClick fa) = length fa"
  by (simp add: card_onClick_def)

text \<open>
  Claim C7 (navigation path). The selection handler called with creator \<open>c\<close> and slug
  \<open>s\<close> pushes exactly one path to the router, the string \<open>/store/agent/\<close> followed by \<open>c\<close>,
  a slash and \<open>s\<close>, and changes nothing else; the card of the \<open>k\<close>-th agent calls it with
  that agent's creator and slug.
\<close>

theorem card_click_pushes_path:
  "handleCardClick c s w = w\<lparr>router := router w @ [''/store/agent/'' @ c @ ''/'' @ s]\<rparr>
   \<and> length (card_onClick fa) = length fa
   \<and> (\<forall>k < length fa.
        (card_onClick fa ! k) w
        = w\<lparr>router := router w @ [''/store/agent/'' @ creator (fa ! k) @ ''/'' @ slug (fa ! k)]\<rparr>)"
proof -
  have "handleCardClick c s w = w\<lparr>router := router w @ [''/store/agent/'' @ c @ ''/'' @ s]\<rparr>"
    by (simp add: handleCardClick_def)
  with length_card_onClick [of fa] card_onClick_nth [of _ fa w] show ?thesis by blast
qed

theorem card_click_pushes_path_witness:
  "(1::nat) < length mockFeaturedAgents
   \<and> (card_onClick mockFeaturedAgents ! 1) (mount [] [])
      = \<lparr>currentSlide = 0, router = [''/store/agent/WordCraft AI/content-writer-ai''],
         console = []\<rparr>"
proof -
  have len: "(1::nat) < length mockFeaturedAgents"
    by (simp add: mockFeaturedAgents_def)
  with card_click_pushes_path [of "[]" "[]" "mount [] []" mockFeaturedAgents]
  have "(card_onClick mockFeaturedAgents ! 1) (mount [] [])
        = (mount [] [])\<lparr>router := router (mount [] [])
             @ [''/store/agent/'' @ creator (mockFeaturedAgents ! 1)
                @ ''/'' @ slug (mockFeaturedAgents ! 1)]\<rparr>"
    by blast
  with len show ?thesis
    by (simp add: mockFeaturedAgents_def mount_def content_writer_def)
qed

lemma Page_handleCardClick_logs: "console (Page_handleCardClick a w) \<noteq> console w"
  by (simp add: Page_handleCardClick_def)

text \<open>
  Claim C10 (parent callback ignored). The cards the component renders do not depend on
  the \<open>onCardClick\<close> member of the props object. With the props \<open>Page\<close> passes, a click on
  the \<open>k\<close>-th card pushes the constructed path to the router and writes nothing to the
  console, whereas \<open>Page\<close>'s \<open>handleCardClick\<close> writes a line whenever it runs: it is not
  run by the component.
\<close>

theorem parent_callback_ignored:
  "FeaturedSection_cards (props\<lparr>onCardClick := cb\<rparr>) = FeaturedSection_cards props
   \<and> length (FeaturedSection_cards (Page_FeaturedSection fa)) = length fa
   \<and> (\<forall>k < length fa.
        (FeaturedSection_cards (Page_FeaturedSection fa) ! k) w
        = w\<lparr>router := router w @ [''/store/agent/'' @ creator (fa ! k) @ ''/'' @ slug (fa ! k)]\<rparr>
        \<and> console ((FeaturedSection_cards (Page_FeaturedSection fa) ! k) w) = console w)
   \<and> console (Page_handleCardClick agentName w) \<noteq> console w"
proof -
  have indep: "FeaturedSection_cards (props\<lparr>onCardClick := cb\<rparr>) = FeaturedSection_cards props"
    by (simp add: FeaturedSection_cards_def)
  have cards: "FeaturedSection_cards (Page_FeaturedSection fa) = card_onClick fa"
    by (simp add: FeaturedSection_cards_def Page_FeaturedSection_def)
  have push: "(card_onClick fa ! k) w
        = w\<lparr>router := router w @ [''/store/agent/'' @ creator (fa ! k) @ ''/'' @ slug (fa ! k)]\<rparr>"
    if "k < length fa" for k
    using that by (rule card_onClick_nth)
  have quiet: "console ((card_onClick fa ! k) w) = console w" if "k < length fa" for k
    using push [OF that] by simp
  from indep cards push quiet length_card_onClick [of fa] Page_handleCardClick_logs [of agentName w]
  show ?thesis by simp
qed

theorem parent_callback_ignored_witness:
  "(1::nat) < length mockFeaturedAgents
   \<and> (FeaturedSection_cards (Page_FeaturedSection mockFeaturedAgents) ! 1) (mount [] [])
      = \<lparr>currentSlide = 0, router = [''/store/agent/WordCraft AI/content-writer-ai''],
         console = []\<rparr>
   \<and> Page_handleCardClick ''Content Writer AI'' (mount [] [])
      = \<lparr>currentSlide = 0, router = [], console = [''Clicked on agent: Content Writer AI'']\<rparr>"
proof -
  have len: "(1::nat) < length mockFeaturedAgents"
    by (simp add: mockFeaturedAgents_def)
  with parent_callback_ignored [where props = "Page_FeaturedSection mockFeaturedAgents"
         and cb = None and fa = mockFeaturedAgents and w = "mount [] []"
         and agentName = "''Content Writer AI''"]
  have "(FeaturedSection_cards (Page_FeaturedSection mockFeaturedAgents) ! 1) (mount [] [])
        = (mount [] [])\<lparr>router := router (mount [] [])
             @ [''/store/agent/'' @ creator (mockFeaturedAgents ! 1)
                @ ''/'' @ slug (mockFeaturedAgents ! 1)]\<rparr>"
    by blast
  with len show ?thesis
    by (simp add: mockFeaturedAgents_def mount_def content_writer_def Page_handleCardClick_def)
qed

section \<open>The runs and reviews columns of a table row\<close>

text \<open>
  Claim C8 (metric cells). A present rating is to render rounded to one decimal place
  next to the filled star. The reviews cell tests the truthiness of \<open>rating\<close>, so a present
  rating of zero takes the other branch: the cell holds the dash, not \<open>toFixed(1)\<close> of the
  rating with the star. The runs cell beside it, written with \<open>?.\<close> and \<open>??\<close>, does show a
  present zero.
\<close>

theorem zero_rating_renders_dash:
  "reviews_column (Value (Num 0))
     = Element ''div'' ''text-right''
         [Element ''span'' ''text-sm text-neutral-600'' [Text (Lit em_dash)]]
   \<and> reviews_column (Value (Num 0)) \<noteq> Element ''div'' ''text-right'' [rating_with_star (Num 0)]
   \<and> runs_column (Value (Num 0))
     = Element ''div'' ''text-sm text-neutral-600 text-right'' [Text (ToLocaleString (Num 0))]"
  by (simp add: rating_dash_def rating_with_star_def runs_column_def runs_text_def)

text \<open>
  Claim C9 (asymmetry at zero). A run count of zero renders as the host's formatting of
  zero, and the runs cell holds the dash exactly when the run count is undefined or null.
  A rating of zero renders as the dash, and the reviews cell holds the dash exactly when
  the rating is undefined, null, zero or NaN; under every host the string shown for a
  zero rating is the dash, which is not \<open>0.0\<close>.
\<close>

theorem zero_metrics_asymmetry:
  "runs_column (Value (Num 0))
     = Element ''div'' ''text-sm text-neutral-600 text-right'' [Text (ToLocaleString (Num 0))]
   \<and> (runs_column x = Element ''div'' ''text-sm text-neutral-600 text-right'' [Text (Lit em_dash)]
        \<longleftrightarrow> x = Undefined \<or> x = Null)
   \<and> reviews_column (Value (Num 0)) = Element ''div'' ''text-right'' [rating_dash]
   \<and> (reviews_column y = Element ''div'' ''text-right'' [rating_dash]
        \<longleftrightarrow> y = Undefined \<or> y = Null \<or> y = Value (Num 0) \<or> y = Value NaN)
   \<and> rating_dash = Element ''span'' ''text-sm text-neutral-600'' [Text (Lit em_dash)]
   \<and> text_string h (ToLocaleString (Num 0)) = toLocaleString h (Num 0)
   \<and> text_string h (Lit em_dash) = em_dash
   \<and> em_dash \<noteq> ''0.0''"
proof -
  have runs0: "runs_column (Value (Num 0))
     = Element ''div'' ''text-sm text-neutral-600 text-right'' [Text (ToLocaleString (Num 0))]"
    by (simp add: runs_column_def runs_text_def)
  have runs_dash:
    "runs_column x = Element ''div'' ''text-sm text-neutral-600 text-right'' [Text (Lit em_dash)]
        \<longleftrightarrow> x = Undefined \<or> x = Null"
    by (cases x) (simp_all add: runs_column_def runs_text_def)
  have t: "truthy n \<longleftrightarrow> n \<noteq> Num 0 \<and> n \<noteq> NaN" for n
    by (cases n) simp_all
  have differ: "rating_with_star n \<noteq> rating_dash" for n
    by (simp add: rating_with_star_def rating_dash_def)
  have reviews_dash: "reviews_column y = Element ''div'' ''text-right'' [rating_dash]
        \<longleftrightarrow> y = Undefined \<or> y = Null \<or> y = Value (Num 0) \<or> y = Value NaN"
    by (cases y) (auto simp: t differ)
  have "em_dash \<noteq> ''0.0''"
    by (simp add: em_dash_def)
  with runs0 runs_dash reviews_dash show ?thesis
    by (simp add: rating_dash_def)
qed

end
